theory Spec2Isabelle
  imports Main
begin

section \<open>Mars rover: a shallow embedding of rover.py\<close>

text \<open>
  The navigation core of \<^verbatim>\<open>rover.py\<close>: the four direction classes, the grid, the rover
  and the three command classes, together with \<^verbatim>\<open>initialize_rover\<close>. Python integers are
  \<open>int\<close>, a mutated object is passed in and returned, and a raised exception is the
  \<open>Inl\<close> side of a sum. The calls to \<^verbatim>\<open>console.print\<close> and \<^verbatim>\<open>logging.info\<close>
  write to the terminal only and read or change no field of the rover or of the grid; they
  are left out of the model.

  Methods of different classes that share a name are prefixed with their class:
  \<^verbatim>\<open>North.turn_left\<close> and its siblings are \<open>Direction_turn_left\<close>,
  \<^verbatim>\<open>Rover.turn_left\<close> is \<open>Rover_turn_left\<close>, and so on.
\<close>

subsection \<open>Direction classes\<close>

text \<open>The subclasses \<^verbatim>\<open>North\<close>, \<^verbatim>\<open>East\<close>, \<^verbatim>\<open>South\<close>, \<^verbatim>\<open>West\<close> of
  \<^verbatim>\<open>Direction\<close> carry no data; dynamic dispatch over them is a case distinction.\<close>

datatype Direction = North | East | South | West

fun Direction_move_forward :: "Direction \<Rightarrow> int \<Rightarrow> int \<Rightarrow> int \<times> int" where
  "Direction_move_forward North x y = (x, y + 1)"
| "Direction_move_forward East x y = (x + 1, y)"
| "Direction_move_forward South x y = (x, y - 1)"
| "Direction_move_forward West x y = (x - 1, y)"

fun Direction_turn_left :: "Direction \<Rightarrow> Direction" where
  "Direction_turn_left North = West"
| "Direction_turn_left East = North"
| "Direction_turn_left South = East"
| "Direction_turn_left West = South"

fun Direction_turn_right :: "Direction \<Rightarrow> Direction" where
  "Direction_turn_right North = East"
| "Direction_turn_right East = South"
| "Direction_turn_right South = West"
| "Direction_turn_right West = North"

fun Direction_str :: "Direction \<Rightarrow> string" where
  "Direction_str North = ''North''"
| "Direction_str East = ''East''"
| "Direction_str South = ''South''"
| "Direction_str West = ''West''"

subsection \<open>Grid\<close>

record Grid =
  width :: int
  height :: int
  obstacles :: "(int \<times> int) list"

text \<open>\<^verbatim>\<open>Grid.__init__\<close>: the obstacle argument defaults to \<^verbatim>\<open>None\<close>, and
  \<^verbatim>\<open>obstacles or []\<close> turns \<^verbatim>\<open>None\<close> into the empty list. Neither the dimensions nor
  the obstacles are validated.\<close>

definition Grid_init :: "int \<Rightarrow> int \<Rightarrow> (int \<times> int) list option \<Rightarrow> Grid" where
  "Grid_init w h obs =
     \<lparr>width = w, height = h, obstacles = (case obs of None \<Rightarrow> [] | Some l \<Rightarrow> l)\<rparr>"

definition has_obstacle :: "Grid \<Rightarrow> int \<Rightarrow> int \<Rightarrow> bool" where
  "has_obstacle g x y = ((x, y) \<in> set (obstacles g))"

definition is_valid_position :: "Grid \<Rightarrow> int \<Rightarrow> int \<Rightarrow> bool" where
  "is_valid_position g x y = (0 \<le> x \<and> x < width g \<and> 0 \<le> y \<and> y < height g)"

subsection \<open>Rover\<close>

text \<open>The fields \<^verbatim>\<open>x\<close> and \<^verbatim>\<open>y\<close> of the class are \<open>pos_x\<close> and \<open>pos_y\<close> here. The
  rover holds a reference to its grid; nothing in the source writes to a grid after its
  construction, so the reference is modelled by the grid's value.\<close>

record Rover =
  pos_x :: int
  pos_y :: int
  direction :: Direction
  grid :: Grid
  path_history :: "(int \<times> int) list"
  command_count :: int

definition Rover_init :: "int \<Rightarrow> int \<Rightarrow> Direction \<Rightarrow> Grid \<Rightarrow> Rover" where
  "Rover_init x y d g =
     \<lparr>pos_x = x, pos_y = y, direction = d, grid = g,
      path_history = [(x, y)], command_count = 0\<rparr>"

text \<open>\<^verbatim>\<open>Rover.move_forward\<close> returns its boolean result together with the rover after
  the call. Both guards return before any assignment.\<close>

definition Rover_move_forward :: "Rover \<Rightarrow> bool \<times> Rover" where
  "Rover_move_forward r =
     (case Direction_move_forward (direction r) (pos_x r) (pos_y r) of
        (new_x, new_y) \<Rightarrow>
          if \<not> is_valid_position (grid r) new_x new_y then (False, r)
          else if has_obstacle (grid r) new_x new_y then (False, r)
          else (True,
                r\<lparr>pos_x := new_x, pos_y := new_y,
                  path_history := path_history r @ [(new_x, new_y)],
                  command_count := command_count r + 1\<rparr>))"

definition Rover_turn_left :: "Rover \<Rightarrow> Rover" where
  "Rover_turn_left r =
     r\<lparr>direction := Direction_turn_left (direction r),
       command_count := command_count r + 1\<rparr>"

definition Rover_turn_right :: "Rover \<Rightarrow> Rover" where
  "Rover_turn_right r =
     r\<lparr>direction := Direction_turn_right (direction r),
       command_count := command_count r + 1\<rparr>"

text \<open>\<^verbatim>\<open>Rover.get_status\<close> builds a dictionary with four fixed keys; it is a record
  here. \<^verbatim>\<open>len(set(self.path_history))\<close> is the number of distinct cells of the path.\<close>

record Status =
  position :: "int \<times> int"
  direction_name :: string
  commands_executed :: int
  cells_visited :: int

definition Rover_get_status :: "Rover \<Rightarrow> Status" where
  "Rover_get_status r =
     \<lparr>position = (pos_x r, pos_y r),
      direction_name = Direction_str (direction r),
      commands_executed = command_count r,
      cells_visited = int (card (set (path_history r)))\<rparr>"

subsection \<open>Command classes\<close>

datatype Command = MoveForward | TurnLeft | TurnRight

text \<open>\<^verbatim>\<open>Command.execute\<close> returns \<^verbatim>\<open>None\<close>: the result of
  \<^verbatim>\<open>rover.move_forward()\<close> is dropped, only the rover's new state remains.\<close>

fun Command_execute :: "Command \<Rightarrow> Rover \<Rightarrow> Rover" where
  "Command_execute MoveForward r = snd (Rover_move_forward r)"
| "Command_execute TurnLeft r = Rover_turn_left r"
| "Command_execute TurnRight r = Rover_turn_right r"

text \<open>The loop \<^verbatim>\<open>for desc, cmd in commands: cmd.execute(rover)\<close> of \<^verbatim>\<open>demo.py\<close>, which
  is also the loop over \<^verbatim>\<open>command_strs\<close> in \<^verbatim>\<open>main\<close>: the commands are applied in
  order to one rover.\<close>

primrec run_commands :: "Command list \<Rightarrow> Rover \<Rightarrow> Rover" where
  "run_commands [] r = r"
| "run_commands (c # cs) r = run_commands cs (Command_execute c r)"

subsection \<open>Initialisation from a configuration\<close>

text \<open>The configuration is a dictionary of dictionaries read with \<^verbatim>\<open>.get(key, default)\<close>;
  each key is an optional field here, \<open>None\<close> when the key is absent. The values are
  taken to have the types the source expects: integers for the dimensions and the start
  cell, pairs of integers for the obstacles, a string for the direction token.\<close>

record grid_config =
  cfg_width :: "int option"
  cfg_height :: "int option"
  cfg_obstacles :: "(int \<times> int) list option"

record rover_config =
  start_x :: "int option"
  start_y :: "int option"
  start_direction :: "string option"

record config =
  cfg_grid :: "grid_config option"
  cfg_rover :: "rover_config option"

datatype error = KeyError string

text \<open>The dictionary literal \<^verbatim>\<open>direction_map\<close>.\<close>

definition direction_map :: "string \<rightharpoonup> Direction" where
  "direction_map =
     [''N'' \<mapsto> North, ''E'' \<mapsto> East, ''S'' \<mapsto> South, ''W'' \<mapsto> West]"

text \<open>\<^verbatim>\<open>config.get("grid", {})\<close> and \<^verbatim>\<open>config.get("rover", {})\<close>: an absent
  sub-dictionary is the empty one.\<close>

definition empty_grid_config :: grid_config where
  "empty_grid_config = \<lparr>cfg_width = None, cfg_height = None, cfg_obstacles = None\<rparr>"

definition empty_rover_config :: rover_config where
  "empty_rover_config = \<lparr>start_x = None, start_y = None, start_direction = None\<rparr>"

text \<open>\<^verbatim>\<open>initialize_rover\<close>: the subscript \<^verbatim>\<open>direction_map[...]\<close> raises
  \<^verbatim>\<open>KeyError\<close> on a key the dictionary does not hold; the default \<^verbatim>\<open>"N"\<close> is used only
  when the key \<^verbatim>\<open>start_direction\<close> is absent from the configuration.\<close>

definition initialize_rover :: "config \<Rightarrow> error + Rover" where
  "initialize_rover cfg =
     (let grid_config = (case cfg_grid cfg of None \<Rightarrow> empty_grid_config | Some gc \<Rightarrow> gc);
          rover_config = (case cfg_rover cfg of None \<Rightarrow> empty_rover_config | Some rc \<Rightarrow> rc);
          obstacles = (case cfg_obstacles grid_config of None \<Rightarrow> [] | Some l \<Rightarrow> l);
          grid = Grid_init
                   (case cfg_width grid_config of None \<Rightarrow> 10 | Some w \<Rightarrow> w)
                   (case cfg_height grid_config of None \<Rightarrow> 10 | Some h \<Rightarrow> h)
                   (Some obstacles);
          x = (case start_x rover_config of None \<Rightarrow> 0 | Some v \<Rightarrow> v);
          y = (case start_y rover_config of None \<Rightarrow> 0 | Some v \<Rightarrow> v);
          token = (case start_direction rover_config of None \<Rightarrow> ''N'' | Some t \<Rightarrow> t)
      in case direction_map token of
           None \<Rightarrow> Inl (KeyError token)
         | Some d \<Rightarrow> Inr (Rover_init x y d grid))"

section \<open>Helper lemmas\<close>

lemmas rover_defs = Rover_move_forward_def Rover_turn_left_def Rover_turn_right_def
  Rover_init_def Grid_init_def has_obstacle_def is_valid_position_def

text \<open>
  The two outcomes of \<^verbatim>\<open>Rover.move_forward\<close>: a guard returns \<open>False\<close> and the rover as it
  was, or the move is made.
\<close>

lemma move_forward_blocked:
  assumes "Direction_move_forward (direction r) (pos_x r) (pos_y r) = (nx, ny)"
    and "\<not> is_valid_position (grid r) nx ny \<or> has_obstacle (grid r) nx ny"
  shows "Rover_move_forward r = (False, r)"
  using assms by (auto simp: Rover_move_forward_def)

lemma move_forward_free:
  assumes "Direction_move_forward (direction r) (pos_x r) (pos_y r) = (nx, ny)"
    and "is_valid_position (grid r) nx ny" and "\<not> has_obstacle (grid r) nx ny"
  shows "Rover_move_forward r =
    (True, r\<lparr>pos_x := nx, pos_y := ny, path_history := path_history r @ [(nx, ny)],
              command_count := command_count r + 1\<rparr>)"
  using assms by (simp add: Rover_move_forward_def)

lemma move_forward_result:
  "Rover_move_forward r = (False, r)
   \<or> (\<exists>nx ny. Rover_move_forward r =
        (True, r\<lparr>pos_x := nx, pos_y := ny, path_history := path_history r @ [(nx, ny)],
                  command_count := command_count r + 1\<rparr>))"
  by (auto simp: Rover_move_forward_def split: prod.splits)

text \<open>
  What one command does to the path, to the counter and to the link between the last
  path entry and the position; each fact is lifted to a command list by induction.
\<close>

lemma blocked_funpow:
  assumes "Rover_move_forward r = (False, r)"
  shows "((\<lambda>s. snd (Rover_move_forward s)) ^^ n) r = r"
  using assms by (induction n) simp_all

lemma execute_path_history:
  "path_history (Command_execute c r) = path_history r
   \<or> (\<exists>cell. path_history (Command_execute c r) = path_history r @ [cell]
        \<and> command_count (Command_execute c r) = command_count r + 1)"
proof (cases c)
  case MoveForward
  from move_forward_result [of r] show ?thesis
    unfolding MoveForward by auto
next
  case TurnLeft
  then show ?thesis by (simp add: Rover_turn_left_def)
next
  case TurnRight
  then show ?thesis by (simp add: Rover_turn_right_def)
qed

lemma execute_command_count_mono:
  "command_count r \<le> command_count (Command_execute c r)"
proof (cases c)
  case MoveForward
  from move_forward_result [of r] show ?thesis
    unfolding MoveForward by auto
next
  case TurnLeft
  then show ?thesis by (simp add: Rover_turn_left_def)
next
  case TurnRight
  then show ?thesis by (simp add: Rover_turn_right_def)
qed

lemma execute_length_bound:
  assumes "int (length (path_history r)) \<le> command_count r + 1"
  shows "int (length (path_history (Command_execute c r)))
           \<le> command_count (Command_execute c r) + 1"
  using execute_path_history [of c r] execute_command_count_mono [of r c] assms
  by auto

lemma run_length_bound:
  assumes "int (length (path_history r)) \<le> command_count r + 1"
  shows "int (length (path_history (run_commands cs r)))
           \<le> command_count (run_commands cs r) + 1"
  using assms
proof (induction cs arbitrary: r)
  case Nil
  then show ?case by simp
next
  case (Cons c cs)
  from Cons.prems have "int (length (path_history (Command_execute c r)))
      \<le> command_count (Command_execute c r) + 1"
    by (rule execute_length_bound)
  then show ?case
    using Cons.IH by simp
qed

lemma execute_cells_mono:
  "card (set (path_history r)) \<le> card (set (path_history (Command_execute c r)))"
proof -
  have "set (path_history r) \<subseteq> set (path_history (Command_execute c r))"
    using execute_path_history [of c r] by auto
  then show ?thesis
    by (simp add: card_mono)
qed

lemma execute_last_position:
  assumes "path_history r \<noteq> [] \<and> last (path_history r) = (pos_x r, pos_y r)"
  shows "path_history (Command_execute c r) \<noteq> []
    \<and> last (path_history (Command_execute c r))
        = (pos_x (Command_execute c r), pos_y (Command_execute c r))"
proof (cases c)
  case MoveForward
  from move_forward_result [of r] assms show ?thesis
    unfolding MoveForward by auto
next
  case TurnLeft
  then show ?thesis using assms by (simp add: Rover_turn_left_def)
next
  case TurnRight
  then show ?thesis using assms by (simp add: Rover_turn_right_def)
qed

lemma run_last_position:
  assumes "path_history r \<noteq> [] \<and> last (path_history r) = (pos_x r, pos_y r)"
  shows "path_history (run_commands cs r) \<noteq> []
    \<and> last (path_history (run_commands cs r))
        = (pos_x (run_commands cs r), pos_y (run_commands cs r))"
  using assms
proof (induction cs arbitrary: r)
  case Nil
  then show ?case by simp
next
  case (Cons c cs)
  from Cons.prems have "path_history (Command_execute c r) \<noteq> []
    \<and> last (path_history (Command_execute c r))
        = (pos_x (Command_execute c r), pos_y (Command_execute c r))"
    by (rule execute_last_position)
  then show ?case
    using Cons.IH by simp
qed

lemma direction_map_unknown:
  assumes "tok \<notin> {''N'', ''E'', ''S'', ''W''}"
  shows "direction_map tok = None"
  using assms by (simp add: direction_map_def)

text \<open>
  The demo mission of \<^verbatim>\<open>demo.py\<close>, traced: the fourth command would enter the
  obstacle at \<open>(2, 2)\<close> and is rejected.
\<close>

lemma scenario_A_state:
  "run_commands [MoveForward, MoveForward, TurnRight, MoveForward, MoveForward, TurnLeft, MoveForward]
     (Rover_init 0 0 North (Grid_init 10 10 (Some [(2, 2), (3, 5), (7, 8)])))
   = \<lparr>pos_x = 1, pos_y = 3, direction = North,
      grid = Grid_init 10 10 (Some [(2, 2), (3, 5), (7, 8)]),
      path_history = [(0, 0), (0, 1), (0, 2), (1, 2), (1, 3)], command_count = 6\<rparr>"
  by (simp add: rover_defs)

section \<open>Direction algebra\<close>

text \<open>
  C5. For every heading \<open>h\<close>, turning left and then right, or right and then left, gives
  \<open>h\<close> back; four left turns give \<open>h\<close> back, and so do four right turns; a left turn follows
  the cycle North, West, South, East, North and a right turn the inverse cycle North, East,
  South, West, North.
\<close>

theorem turn_inverse_and_four_cycle:
  "Direction_turn_right (Direction_turn_left h) = h
   \<and> Direction_turn_left (Direction_turn_right h) = h
   \<and> (Direction_turn_left ^^ 4) h = h
   \<and> (Direction_turn_right ^^ 4) h = h
   \<and> map Direction_turn_left [North, West, South, East] = [West, South, East, North]
   \<and> map Direction_turn_right [North, East, South, West] = [East, South, West, North]"
  by (cases h) (simp_all add: numeral_eq_Suc)

theorem turn_inverse_and_four_cycle_witness:
  "Direction_turn_right (Direction_turn_left South) = South
   \<and> Direction_turn_left (Direction_turn_right South) = South
   \<and> Direction_turn_left (Direction_turn_left (Direction_turn_left (Direction_turn_left South))) = South
   \<and> Direction_turn_right (Direction_turn_right (Direction_turn_right (Direction_turn_right South))) = South"
  using turn_inverse_and_four_cycle [of South] by (simp add: numeral_eq_Suc)

section \<open>Command counting\<close>

text \<open>
  C1 (as amended). Every turn and every \<^verbatim>\<open>MoveForward\<close> that is carried out raises
  \<open>command_count\<close> by exactly 1; a \<^verbatim>\<open>MoveForward\<close> rejected by the boundary or by an
  obstacle leaves \<open>command_count\<close> as it was.
\<close>

theorem command_count_step:
  "command_count (Command_execute c r) =
     (if c = MoveForward \<and> \<not> fst (Rover_move_forward r) then command_count r
      else command_count r + 1)"
proof (cases c)
  case MoveForward
  from move_forward_result [of r] show ?thesis
    unfolding MoveForward by auto
next
  case TurnLeft
  then show ?thesis by (simp add: Rover_turn_left_def)
next
  case TurnRight
  then show ?thesis by (simp add: Rover_turn_right_def)
qed

theorem command_count_step_witness:
  "command_count (Command_execute MoveForward (Rover_init 5 5 North (Grid_init 10 10 (Some [(5, 6)])))) = 0
   \<and> command_count (Command_execute TurnLeft (Rover_init 5 5 North (Grid_init 10 10 (Some [(5, 6)])))) = 1"
  using command_count_step [of MoveForward "Rover_init 5 5 North (Grid_init 10 10 (Some [(5, 6)]))"]
    command_count_step [of TurnLeft "Rover_init 5 5 North (Grid_init 10 10 (Some [(5, 6)]))"]
  by (simp add: rover_defs)

text \<open>
  C1 as stated fails in its own Scenario B: on the 10 by 10 grid with an obstacle at
  \<open>(5, 6)\<close>, the rover at \<open>(5, 5)\<close> facing North is blocked, and the counter stays 0
  instead of becoming 1.
\<close>

theorem scenario_B_blocked_move_not_counted:
  "fst (Rover_move_forward (Rover_init 5 5 North (Grid_init 10 10 (Some [(5, 6)])))) = False
   \<and> command_count (snd (Rover_move_forward (Rover_init 5 5 North (Grid_init 10 10 (Some [(5, 6)]))))) \<noteq> 1
   \<and> command_count (Command_execute MoveForward (Rover_init 5 5 North (Grid_init 10 10 (Some [(5, 6)]))))
       \<noteq> command_count (Rover_init 5 5 North (Grid_init 10 10 (Some [(5, 6)]))) + 1"
  by (simp add: rover_defs)

section \<open>Scenario A\<close>

text \<open>
  C2 (as amended). From \<open>(0, 0)\<close> facing North on the 10 by 10 grid with obstacles
  \<open>(2, 2)\<close>, \<open>(3, 5)\<close>, \<open>(7, 8)\<close>, the commands Move, Move, TurnRight, Move, Move,
  TurnLeft, Move end at \<open>(1, 3)\<close> facing North with \<open>command_count\<close> 6.
\<close>

theorem scenario_A_final:
  "pos_x (run_commands [MoveForward, MoveForward, TurnRight, MoveForward, MoveForward, TurnLeft, MoveForward]
     (Rover_init 0 0 North (Grid_init 10 10 (Some [(2, 2), (3, 5), (7, 8)])))) = 1
   \<and> pos_y (run_commands [MoveForward, MoveForward, TurnRight, MoveForward, MoveForward, TurnLeft, MoveForward]
     (Rover_init 0 0 North (Grid_init 10 10 (Some [(2, 2), (3, 5), (7, 8)])))) = 3
   \<and> direction (run_commands [MoveForward, MoveForward, TurnRight, MoveForward, MoveForward, TurnLeft, MoveForward]
     (Rover_init 0 0 North (Grid_init 10 10 (Some [(2, 2), (3, 5), (7, 8)])))) = North
   \<and> command_count (run_commands [MoveForward, MoveForward, TurnRight, MoveForward, MoveForward, TurnLeft, MoveForward]
     (Rover_init 0 0 North (Grid_init 10 10 (Some [(2, 2), (3, 5), (7, 8)])))) = 6"
  unfolding scenario_A_state by simp

theorem scenario_A_final_witness:
  "position (Rover_get_status (run_commands [MoveForward, MoveForward, TurnRight, MoveForward, MoveForward, TurnLeft, MoveForward]
     (Rover_init 0 0 North (Grid_init 10 10 (Some [(2, 2), (3, 5), (7, 8)]))))) = (1, 3)
   \<and> direction_name (Rover_get_status (run_commands [MoveForward, MoveForward, TurnRight, MoveForward, MoveForward, TurnLeft, MoveForward]
     (Rover_init 0 0 North (Grid_init 10 10 (Some [(2, 2), (3, 5), (7, 8)]))))) = ''North''
   \<and> commands_executed (Rover_get_status (run_commands [MoveForward, MoveForward, TurnRight, MoveForward, MoveForward, TurnLeft, MoveForward]
     (Rover_init 0 0 North (Grid_init 10 10 (Some [(2, 2), (3, 5), (7, 8)]))))) = 6"
  using scenario_A_final by (simp add: Rover_get_status_def del: run_commands.simps)

text \<open>
  C2 as stated fails: the final cell is not \<open>(2, 4)\<close> and the counter is not 7.
\<close>

theorem scenario_A_not_as_specified:
  "(pos_x (run_commands [MoveForward, MoveForward, TurnRight, MoveForward, MoveForward, TurnLeft, MoveForward]
       (Rover_init 0 0 North (Grid_init 10 10 (Some [(2, 2), (3, 5), (7, 8)])))),
    pos_y (run_commands [MoveForward, MoveForward, TurnRight, MoveForward, MoveForward, TurnLeft, MoveForward]
       (Rover_init 0 0 North (Grid_init 10 10 (Some [(2, 2), (3, 5), (7, 8)]))))) \<noteq> (2, 4)
   \<and> command_count (run_commands [MoveForward, MoveForward, TurnRight, MoveForward, MoveForward, TurnLeft, MoveForward]
       (Rover_init 0 0 North (Grid_init 10 10 (Some [(2, 2), (3, 5), (7, 8)])))) \<noteq> 7"
  unfolding scenario_A_state by simp

section \<open>Moving forward\<close>

text \<open>
  C3. When the cell in front of the rover is inside the grid and holds no obstacle,
  \<^verbatim>\<open>move_forward\<close> returns \<open>True\<close>, the rover stands on that cell, the cell is appended
  to the path, \<open>command_count\<close> grows by exactly 1, and the number of distinct cells
  visited grows by 1 when the cell was not on the path before and by 0 otherwise.
\<close>

theorem move_forward_success:
  assumes "Direction_move_forward (direction r) (pos_x r) (pos_y r) = (nx, ny)"
    and "is_valid_position (grid r) nx ny"
    and "\<not> has_obstacle (grid r) nx ny"
  shows "fst (Rover_move_forward r) = True
    \<and> (pos_x (snd (Rover_move_forward r)), pos_y (snd (Rover_move_forward r))) = (nx, ny)
    \<and> path_history (snd (Rover_move_forward r)) = path_history r @ [(nx, ny)]
    \<and> command_count (snd (Rover_move_forward r)) = command_count r + 1
    \<and> cells_visited (Rover_get_status (snd (Rover_move_forward r))) =
        cells_visited (Rover_get_status r) + (if (nx, ny) \<in> set (path_history r) then 0 else 1)"
proof -
  have step: "Rover_move_forward r =
      (True, r\<lparr>pos_x := nx, pos_y := ny, path_history := path_history r @ [(nx, ny)],
                command_count := command_count r + 1\<rparr>)"
    using assms by (rule move_forward_free)
  show ?thesis
    unfolding step Rover_get_status_def by (simp add: card_insert_if insert_absorb)
qed

theorem move_forward_success_witness:
  "fst (Rover_move_forward (Rover_init 5 5 North (Grid_init 10 10 None))) = True
   \<and> (pos_x (snd (Rover_move_forward (Rover_init 5 5 North (Grid_init 10 10 None)))),
       pos_y (snd (Rover_move_forward (Rover_init 5 5 North (Grid_init 10 10 None))))) = (5, 6)
   \<and> path_history (snd (Rover_move_forward (Rover_init 5 5 North (Grid_init 10 10 None))))
       = [(5, 5), (5, 6)]
   \<and> command_count (snd (Rover_move_forward (Rover_init 5 5 North (Grid_init 10 10 None)))) = 1
   \<and> cells_visited (Rover_get_status (snd (Rover_move_forward (Rover_init 5 5 North (Grid_init 10 10 None)))))
       = 2"
proof -
  let ?r = "Rover_init 5 5 North (Grid_init 10 10 None)"
  have c: "Direction_move_forward (direction ?r) (pos_x ?r) (pos_y ?r) = (5, 6)"
    by (simp add: Rover_init_def)
  have v: "is_valid_position (grid ?r) 5 6"
    by (simp add: rover_defs)
  have o: "\<not> has_obstacle (grid ?r) 5 6"
    by (simp add: rover_defs)
  have s: "cells_visited (Rover_get_status ?r) = 1"
    by (simp add: Rover_get_status_def Rover_init_def)
  have p: "path_history ?r = [(5, 5)]"
    by (simp add: Rover_init_def)
  have n: "command_count ?r = 0"
    by (simp add: Rover_init_def)
  from move_forward_success [OF c v o] show ?thesis
    unfolding s p n by simp
qed

text \<open>
  C4. When the cell in front of the rover is outside the grid or holds an obstacle,
  \<^verbatim>\<open>move_forward\<close> returns \<open>False\<close> and the position is unchanged, and after any number
  \<open>n\<close> of such calls the next call returns \<open>False\<close> again and the position is still the
  first one. The call returns a value on this path: the source has no \<^verbatim>\<open>raise\<close> in
  \<^verbatim>\<open>move_forward\<close>, and the model has no error branch. The witness is Scenario C.
\<close>

theorem rejected_move_idempotent:
  assumes "Direction_move_forward (direction r) (pos_x r) (pos_y r) = (nx, ny)"
    and "\<not> is_valid_position (grid r) nx ny \<or> has_obstacle (grid r) nx ny"
  shows "fst (Rover_move_forward r) = False
    \<and> (pos_x (snd (Rover_move_forward r)), pos_y (snd (Rover_move_forward r))) = (pos_x r, pos_y r)
    \<and> fst (Rover_move_forward (((\<lambda>s. snd (Rover_move_forward s)) ^^ n) r)) = False
    \<and> (pos_x (((\<lambda>s. snd (Rover_move_forward s)) ^^ n) r),
        pos_y (((\<lambda>s. snd (Rover_move_forward s)) ^^ n) r)) = (pos_x r, pos_y r)"
proof -
  have blocked: "Rover_move_forward r = (False, r)"
    using assms by (rule move_forward_blocked)
  have "((\<lambda>s. snd (Rover_move_forward s)) ^^ n) r = r"
    using blocked by (rule blocked_funpow)
  then show ?thesis
    by (simp add: blocked)
qed

theorem rejected_move_idempotent_witness:
  "fst (Rover_move_forward (Rover_init 0 0 South (Grid_init 10 10 None))) = False
   \<and> (pos_x (snd (Rover_move_forward (Rover_init 0 0 South (Grid_init 10 10 None)))),
       pos_y (snd (Rover_move_forward (Rover_init 0 0 South (Grid_init 10 10 None))))) = (0, 0)
   \<and> fst (Rover_move_forward (((\<lambda>s. snd (Rover_move_forward s)) ^^ 3)
        (Rover_init 0 0 South (Grid_init 10 10 None)))) = False
   \<and> (pos_x (((\<lambda>s. snd (Rover_move_forward s)) ^^ 3) (Rover_init 0 0 South (Grid_init 10 10 None))),
       pos_y (((\<lambda>s. snd (Rover_move_forward s)) ^^ 3) (Rover_init 0 0 South (Grid_init 10 10 None))))
      = (0, 0)"
proof -
  let ?r = "Rover_init 0 0 South (Grid_init 10 10 None)"
  have c: "Direction_move_forward (direction ?r) (pos_x ?r) (pos_y ?r) = (0, - 1)"
    by (simp add: Rover_init_def)
  have b: "\<not> is_valid_position (grid ?r) 0 (- 1) \<or> has_obstacle (grid ?r) 0 (- 1)"
    by (simp add: rover_defs)
  have p: "(pos_x ?r, pos_y ?r) = (0, 0)"
    by (simp add: Rover_init_def)
  from rejected_move_idempotent [OF c b, of 3] show ?thesis
    unfolding p .
qed

text \<open>
  C9. A rejected move is atomic: when \<^verbatim>\<open>move_forward\<close> returns \<open>False\<close>, the rover after
  the call equals the rover before it in every field, \<open>command_count\<close> and
  \<open>path_history\<close> included.
\<close>

theorem blocked_move_atomic:
  assumes "fst (Rover_move_forward r) = False"
  shows "snd (Rover_move_forward r) = r \<and> Command_execute MoveForward r = r"
  using assms move_forward_result [of r] by auto

theorem blocked_move_atomic_witness:
  "fst (Rover_move_forward (Rover_init 5 5 North (Grid_init 10 10 (Some [(5, 6)])))) = False
   \<and> snd (Rover_move_forward (Rover_init 5 5 North (Grid_init 10 10 (Some [(5, 6)]))))
       = Rover_init 5 5 North (Grid_init 10 10 (Some [(5, 6)]))
   \<and> Command_execute MoveForward (Rover_init 5 5 North (Grid_init 10 10 (Some [(5, 6)])))
       = Rover_init 5 5 North (Grid_init 10 10 (Some [(5, 6)]))"
proof -
  let ?r = "Rover_init 5 5 North (Grid_init 10 10 (Some [(5, 6)]))"
  have f: "fst (Rover_move_forward ?r) = False"
    by (simp add: rover_defs)
  from blocked_move_atomic [OF f] f show ?thesis
    by (simp del: Command_execute.simps)
qed

section \<open>Turning\<close>

text \<open>
  C7. \<^verbatim>\<open>turn_left\<close> and \<^verbatim>\<open>turn_right\<close> have no failing path: each replaces the direction
  by its left (right) neighbour, raises \<open>command_count\<close> by 1, and leaves the position
  and the path as they were.
\<close>

theorem turns_always_succeed:
  "Rover_turn_left r =
     r\<lparr>direction := Direction_turn_left (direction r), command_count := command_count r + 1\<rparr>
   \<and> Rover_turn_right r =
     r\<lparr>direction := Direction_turn_right (direction r), command_count := command_count r + 1\<rparr>
   \<and> direction (Rover_turn_left r) = Direction_turn_left (direction r)
   \<and> direction (Rover_turn_right r) = Direction_turn_right (direction r)
   \<and> command_count (Rover_turn_left r) = command_count r + 1
   \<and> command_count (Rover_turn_right r) = command_count r + 1
   \<and> (pos_x (Rover_turn_left r), pos_y (Rover_turn_left r)) = (pos_x r, pos_y r)
   \<and> (pos_x (Rover_turn_right r), pos_y (Rover_turn_right r)) = (pos_x r, pos_y r)
   \<and> path_history (Rover_turn_left r) = path_history r
   \<and> path_history (Rover_turn_right r) = path_history r"
  by (simp add: Rover_turn_left_def Rover_turn_right_def)

theorem turns_always_succeed_witness:
  "direction (Rover_turn_left (Rover_init 5 5 North (Grid_init 10 10 None))) = West
   \<and> direction (Rover_turn_right (Rover_init 5 5 North (Grid_init 10 10 None))) = East
   \<and> command_count (Rover_turn_left (Rover_init 5 5 North (Grid_init 10 10 None))) = 1
   \<and> command_count (Rover_turn_right (Rover_init 5 5 North (Grid_init 10 10 None))) = 1
   \<and> path_history (Rover_turn_left (Rover_init 5 5 North (Grid_init 10 10 None))) = [(5, 5)]
   \<and> path_history (Rover_turn_right (Rover_init 5 5 North (Grid_init 10 10 None))) = [(5, 5)]"
proof -
  let ?r = "Rover_init 5 5 North (Grid_init 10 10 None)"
  from turns_always_succeed [of ?r] show ?thesis
    by (simp add: Rover_init_def)
qed

section \<open>Mission invariants\<close>

text \<open>
  C6. After any list of commands applied to a freshly constructed rover, the number of
  distinct cells visited is at most \<open>command_count + 1\<close>, and one more command never
  makes that number smaller.
\<close>

theorem unique_cells_bounded_and_monotone:
  "cells_visited (Rover_get_status (run_commands cmds (Rover_init x y d g)))
     \<le> command_count (run_commands cmds (Rover_init x y d g)) + 1
   \<and> cells_visited (Rover_get_status (run_commands cmds (Rover_init x y d g)))
     \<le> cells_visited (Rover_get_status (Command_execute c (run_commands cmds (Rover_init x y d g))))"
proof -
  let ?r = "run_commands cmds (Rover_init x y d g)"
  have "int (length (path_history (Rover_init x y d g))) \<le> command_count (Rover_init x y d g) + 1"
    by (simp add: Rover_init_def)
  then have len: "int (length (path_history ?r)) \<le> command_count ?r + 1"
    by (rule run_length_bound)
  have "card (set (path_history ?r)) \<le> length (path_history ?r)"
    by (rule card_length)
  with len have bound: "int (card (set (path_history ?r))) \<le> command_count ?r + 1"
    by linarith
  have mono: "int (card (set (path_history ?r)))
      \<le> int (card (set (path_history (Command_execute c ?r))))"
    using execute_cells_mono [of ?r c] by simp
  from bound mono show ?thesis
    by (simp add: Rover_get_status_def)
qed

theorem unique_cells_bounded_and_monotone_witness:
  "cells_visited (Rover_get_status (run_commands
       [MoveForward, TurnRight, MoveForward, TurnRight, MoveForward, TurnRight]
       (Rover_init 5 5 North (Grid_init 10 10 None)))) = 4
   \<and> command_count (run_commands
       [MoveForward, TurnRight, MoveForward, TurnRight, MoveForward, TurnRight]
       (Rover_init 5 5 North (Grid_init 10 10 None))) = 6
   \<and> cells_visited (Rover_get_status (Command_execute MoveForward (run_commands
       [MoveForward, TurnRight, MoveForward, TurnRight, MoveForward, TurnRight]
       (Rover_init 5 5 North (Grid_init 10 10 None))))) = 4
   \<and> (4 :: int) \<le> 6 + 1 \<and> (4 :: int) \<le> 4"
proof -
  let ?cs = "[MoveForward, TurnRight, MoveForward, TurnRight, MoveForward, TurnRight]"
  let ?r = "run_commands ?cs (Rover_init 5 5 North (Grid_init 10 10 None))"
  have st: "?r = \<lparr>pos_x = 6, pos_y = 5, direction = West, grid = Grid_init 10 10 None,
      path_history = [(5, 5), (5, 6), (6, 6), (6, 5)], command_count = 6\<rparr>"
    by (simp add: rover_defs)
  have a: "cells_visited (Rover_get_status ?r) = 4"
    unfolding st by (simp add: Rover_get_status_def)
  have b: "command_count ?r = 6"
    unfolding st by simp
  have c: "cells_visited (Rover_get_status (Command_execute MoveForward ?r)) = 4"
    unfolding st by (simp add: Rover_get_status_def rover_defs card_insert_if)
  from unique_cells_bounded_and_monotone [of ?cs 5 5 North "Grid_init 10 10 None" MoveForward]
  show ?thesis
    unfolding a b c by simp
qed

text \<open>
  C10. The path of a freshly constructed rover is the one-element list of its start cell,
  and after any list of commands the path is non-empty and its last element is the
  rover's position.
\<close>

theorem path_history_ends_at_position:
  "path_history (Rover_init x y d g) = [(x, y)]
   \<and> path_history (run_commands cmds (Rover_init x y d g)) \<noteq> []
   \<and> last (path_history (run_commands cmds (Rover_init x y d g)))
       = (pos_x (run_commands cmds (Rover_init x y d g)),
          pos_y (run_commands cmds (Rover_init x y d g)))"
proof -
  have "path_history (Rover_init x y d g) \<noteq> []
    \<and> last (path_history (Rover_init x y d g))
        = (pos_x (Rover_init x y d g), pos_y (Rover_init x y d g))"
    by (simp add: Rover_init_def)
  then have "path_history (run_commands cmds (Rover_init x y d g)) \<noteq> []
    \<and> last (path_history (run_commands cmds (Rover_init x y d g)))
        = (pos_x (run_commands cmds (Rover_init x y d g)),
           pos_y (run_commands cmds (Rover_init x y d g)))"
    by (rule run_last_position)
  then show ?thesis
    by (simp add: Rover_init_def)
qed

theorem path_history_ends_at_position_witness:
  "path_history (run_commands [MoveForward, TurnRight, MoveForward, MoveForward]
      (Rover_init 5 5 North (Grid_init 10 10 (Some [(7, 6)])))) = [(5, 5), (5, 6), (6, 6)]
   \<and> last [(5, 5), (5, 6), (6, 6)]
       = (pos_x (run_commands [MoveForward, TurnRight, MoveForward, MoveForward]
            (Rover_init 5 5 North (Grid_init 10 10 (Some [(7, 6)])))),
          pos_y (run_commands [MoveForward, TurnRight, MoveForward, MoveForward]
            (Rover_init 5 5 North (Grid_init 10 10 (Some [(7, 6)])))))"
proof -
  let ?cs = "[MoveForward, TurnRight, MoveForward, MoveForward]"
  let ?g = "Grid_init 10 10 (Some [(7, 6)])"
  have p: "path_history (run_commands ?cs (Rover_init 5 5 North ?g)) = [(5, 5), (5, 6), (6, 6)]"
    by (simp add: rover_defs)
  from path_history_ends_at_position [of 5 5 North ?g ?cs] show ?thesis
    unfolding p by simp
qed

section \<open>Initialisation with an unknown direction token\<close>

text \<open>
  C8. When the configuration gives a direction token other than \<open>N\<close>, \<open>E\<close>, \<open>S\<close>,
  \<open>W\<close>, \<^verbatim>\<open>initialize_rover\<close> raises \<^verbatim>\<open>KeyError\<close> for that token; no rover is built, so
  none with a substituted direction.
\<close>

theorem unknown_direction_token_raises:
  assumes "cfg_rover cfg = Some rc"
    and "start_direction rc = Some tok"
    and "tok \<notin> {''N'', ''E'', ''S'', ''W''}"
  shows "initialize_rover cfg = Inl (KeyError tok)"
proof -
  have "direction_map tok = None"
    using assms(3) by (rule direction_map_unknown)
  then show ?thesis
    using assms(1,2) by (simp add: initialize_rover_def Let_def)
qed

theorem unknown_direction_token_raises_witness:
  "initialize_rover
     \<lparr>cfg_grid = None,
      cfg_rover = Some \<lparr>start_x = Some 1, start_y = Some 2, start_direction = Some ''X''\<rparr>\<rparr>
   = Inl (KeyError ''X'')"
proof -
  let ?rc = "\<lparr>start_x = Some 1, start_y = Some 2, start_direction = Some ''X''\<rparr>"
  let ?cfg = "\<lparr>cfg_grid = None, cfg_rover = Some ?rc\<rparr>"
  have a: "cfg_rover ?cfg = Some ?rc" by simp
  have b: "start_direction ?rc = Some ''X''" by simp
  have c: "''X'' \<notin> {''N'', ''E'', ''S'', ''W''}" by simp
  from unknown_direction_token_raises [OF a b c] show ?thesis .
qed

end
